theory Spec2Isabelle
  imports Main
begin

section \<open>The host debugger's values\<close>

text \<open>
  The scripts of \<^verbatim>\<open>data/lldb\<close> run inside the debugger, which hands them
  \<^verbatim>\<open>SBValue\<close> objects. The debugger's API is not part of the repository; this section
  fixes the part of it that \<^verbatim>\<open>quaternion.py\<close> calls.

  Python floats. The program only compares a float with \<open>0\<close>, takes its absolute value and
  prints it. A finite float is identified here by the decimal that Python prints for it (the
  shortest decimal that reads back as the same float): a sign, the digits as a natural number and
  a power of ten. \<open>Finite False 25 (-1)\<close> is \<open>2.5\<close>, \<open>Finite True 3 0\<close> is \<open>-3.0\<close>, and
  \<open>Finite s 0 e\<close> is a zero.
\<close>

datatype pyfloat = Finite bool nat int | Infinity bool | NaN

text \<open>\<^verbatim>\<open>v == 0\<close>: true of both zeros, false of the infinities and of NaN.\<close>

fun float_eq_zero :: "pyfloat \<Rightarrow> bool" where
  "float_eq_zero (Finite s m e) = (m = 0)"
| "float_eq_zero (Infinity s) = False"
| "float_eq_zero NaN = False"

text \<open>\<^verbatim>\<open>v < 0\<close>: false of a negative zero and of NaN.\<close>

fun float_lt_zero :: "pyfloat \<Rightarrow> bool" where
  "float_lt_zero (Finite s m e) = (s \<and> m \<noteq> 0)"
| "float_lt_zero (Infinity s) = s"
| "float_lt_zero NaN = False"

text \<open>\<^verbatim>\<open>abs(v)\<close> clears the sign.\<close>

fun float_abs :: "pyfloat \<Rightarrow> pyfloat" where
  "float_abs (Finite s m e) = Finite False m e"
| "float_abs (Infinity s) = Infinity False"
| "float_abs NaN = NaN"

text \<open>
  \<^verbatim>\<open>str(v)\<close>, which is what an f-string field \<^verbatim>\<open>{v}\<close> prints. The digits are printed
  without trailing zeros. With \<open>decpt\<close> the position of the decimal point after the first
  \<open>decpt\<close> digits, Python switches to exponent notation when \<open>decpt \<le> -4\<close> or \<open>decpt > 16\<close>,
  and otherwise prints positional notation, ending in \<^verbatim>\<open>.0\<close> when the value is a whole number.
\<close>

definition digit_char :: "nat \<Rightarrow> char" where
  "digit_char d =
     (if d = 0 then CHR ''0'' else if d = 1 then CHR ''1'' else if d = 2 then CHR ''2''
      else if d = 3 then CHR ''3'' else if d = 4 then CHR ''4'' else if d = 5 then CHR ''5''
      else if d = 6 then CHR ''6'' else if d = 7 then CHR ''7'' else if d = 8 then CHR ''8''
      else CHR ''9'')"

fun digits :: "nat \<Rightarrow> string" where
  "digits n = (if n < 10 then [digit_char n] else digits (n div 10) @ [digit_char (n mod 10)])"

declare digits.simps [simp del]

function strip_zeros :: "nat \<Rightarrow> int \<Rightarrow> nat \<times> int" where
  "strip_zeros m e =
     (if m \<noteq> 0 \<and> m mod 10 = 0 then strip_zeros (m div 10) (e + 1) else (m, e))"
  by pat_completeness auto
termination
  by (relation "measure (\<lambda>(m, e). m)") auto

declare strip_zeros.simps [simp del]

definition exponent_str :: "int \<Rightarrow> string" where
  "exponent_str x =
     (if x < 0 then ''-'' else ''+'') @
     (if \<bar>x\<bar> < 10 then ''0'' else '''') @ digits (nat \<bar>x\<bar>)"

definition finite_str :: "nat \<Rightarrow> int \<Rightarrow> string" where
  "finite_str m e =
     (if m = 0 then ''0.0''
      else
        let (m', e') = strip_zeros m e;
            ds = digits m';
            decpt = int (length ds) + e'
        in if decpt \<le> -4 \<or> decpt > 16 then
             [hd ds] @ (if tl ds = [] then '''' else ''.'' @ tl ds) @ ''e'' @ exponent_str (decpt - 1)
           else if decpt \<le> 0 then ''0.'' @ replicate (nat (- decpt)) CHR ''0'' @ ds
           else if decpt < int (length ds) then
             take (nat decpt) ds @ ''.'' @ drop (nat decpt) ds
           else ds @ replicate (nat decpt - length ds) CHR ''0'' @ ''.0'')"

fun float_str :: "pyfloat \<Rightarrow> string" where
  "float_str (Finite s m e) = (if s then ''-'' else '''') @ finite_str m e"
| "float_str (Infinity s) = (if s then ''-inf'' else ''inf'')"
| "float_str NaN = ''nan''"

text \<open>
  What \<^verbatim>\<open>SBValue.GetValue()\<close> returns is only ever passed to \<^verbatim>\<open>float(...)\<close>, so the
  displayed value of a piece of debuggee memory is kept as what \<^verbatim>\<open>float\<close> makes of it:
  \<open>NoValue\<close> when \<^verbatim>\<open>GetValue()\<close> is \<^verbatim>\<open>None\<close> (an aggregate, or nothing to read),
  \<open>Unparsable\<close> for a text that \<^verbatim>\<open>float\<close> rejects, and \<open>Number v\<close> for a text that
  \<^verbatim>\<open>float\<close> reads as \<open>v\<close>.
\<close>

datatype shown = NoValue | Unparsable | Number pyfloat

datatype exn = TypeError | ValueError

fun py_float :: "shown \<Rightarrow> exn + pyfloat" where
  "py_float NoValue = Inl TypeError"
| "py_float Unparsable = Inl ValueError"
| "py_float (Number v) = Inr v"

text \<open>
  An \<^verbatim>\<open>SBType\<close> is valid or not. An \<^verbatim>\<open>SBData\<close> stands for a piece of debuggee memory
  together with what the debugger decodes from it: its displayed value and its members by name,
  each with its type. An \<^verbatim>\<open>SBValue\<close> is either invalid or a name, a type and the data.
  No method of these classes raises: on an invalid receiver, or for a member that does not exist,
  it returns an invalid or empty object.
\<close>

datatype sbtype = TypeInvalid | SBType string

datatype sbdata = SBData (displayed: shown) (members: "(string \<times> sbtype \<times> sbdata) list")

datatype sbvalue = SBInvalid | SBValue string sbtype sbdata

fun IsValid :: "sbvalue \<Rightarrow> bool" where
  "IsValid SBInvalid = False"
| "IsValid (SBValue n t d) = True"

fun GetName :: "sbvalue \<Rightarrow> string option" where
  "GetName SBInvalid = None"
| "GetName (SBValue n t d) = Some n"

fun GetType :: "sbvalue \<Rightarrow> sbtype" where
  "GetType SBInvalid = TypeInvalid"
| "GetType (SBValue n t d) = t"

fun GetData :: "sbvalue \<Rightarrow> sbdata" where
  "GetData SBInvalid = SBData NoValue []"
| "GetData (SBValue n t d) = d"

fun GetValue :: "sbvalue \<Rightarrow> shown" where
  "GetValue SBInvalid = NoValue"
| "GetValue (SBValue n t (SBData v ms)) = v"

fun GetChildMemberWithName :: "sbvalue \<Rightarrow> string \<Rightarrow> sbvalue" where
  "GetChildMemberWithName SBInvalid name = SBInvalid"
| "GetChildMemberWithName (SBValue n t (SBData v ms)) name =
     (case map_of ms name of
        None \<Rightarrow> SBInvalid
      | Some (t', d') \<Rightarrow> SBValue name t' d')"

fun CreateValueFromData :: "sbvalue \<Rightarrow> string \<Rightarrow> sbdata \<Rightarrow> sbtype \<Rightarrow> sbvalue" where
  "CreateValueFromData SBInvalid name d t = SBInvalid"
| "CreateValueFromData (SBValue n0 t0 d0) name d TypeInvalid = SBInvalid"
| "CreateValueFromData (SBValue n0 t0 d0) name d (SBType ty) = SBValue name (SBType ty) d"

text \<open>
  The values of this model are the raw ones, with the members the debuggee's type declares, so
  \<^verbatim>\<open>GetNonSyntheticValue()\<close> returns its receiver.
\<close>

definition GetNonSyntheticValue :: "sbvalue \<Rightarrow> sbvalue" where
  "GetNonSyntheticValue v = v"

section \<open>\<^verbatim>\<open>quaternion.py\<close>: the synthetic child provider\<close>

text \<open>
  \<^verbatim>\<open>class Quaternion\<close>, with its attributes \<^verbatim>\<open>valobj\<close>, \<^verbatim>\<open>w\<close>, \<^verbatim>\<open>i\<close>,
  \<^verbatim>\<open>j\<close>, \<^verbatim>\<open>k\<close>.
\<close>

record Quaternion =
  self_valobj :: sbvalue
  self_w :: sbvalue
  self_i :: sbvalue
  self_j :: sbvalue
  self_k :: sbvalue

definition update :: "Quaternion \<Rightarrow> Quaternion" where
  "update self =
     (let vec = GetChildMemberWithName (self_valobj self) ''0''
      in self\<lparr>self_w := GetChildMemberWithName vec ''x'',
              self_i := GetChildMemberWithName vec ''y'',
              self_j := GetChildMemberWithName vec ''z'',
              self_k := GetChildMemberWithName vec ''w''\<rparr>)"

text \<open>
  \<^verbatim>\<open>__init__\<close> stores \<^verbatim>\<open>valobj\<close> and calls \<^verbatim>\<open>update\<close>, which sets the four other
  attributes (they do not exist before, and \<open>update\<close> reads none of them).
\<close>

definition Quaternion_init :: "sbvalue \<Rightarrow> Quaternion" where
  "Quaternion_init valobj =
     update \<lparr>self_valobj = valobj, self_w = SBInvalid, self_i = SBInvalid,
             self_j = SBInvalid, self_k = SBInvalid\<rparr>"

definition num_children :: "Quaternion \<Rightarrow> int" where
  "num_children self = 4"

text \<open>
  The body of the \<^verbatim>\<open>try\<close> of \<^verbatim>\<open>get_child_at_index\<close>, with the exception it may raise as
  \<open>Inl\<close>; the result \<open>None\<close> is Python's \<^verbatim>\<open>None\<close>.
\<close>

definition get_child_at_index_try :: "Quaternion \<Rightarrow> int \<Rightarrow> exn + sbvalue option" where
  "get_child_at_index_try self index =
     (if index = 0 then
        Inr (Some (CreateValueFromData (self_w self) ''w'' (GetData (self_w self)) (GetType (self_w self))))
      else if index = 1 then
        Inr (Some (CreateValueFromData (self_i self) ''i'' (GetData (self_i self)) (GetType (self_i self))))
      else if index = 2 then
        Inr (Some (CreateValueFromData (self_j self) ''j'' (GetData (self_j self)) (GetType (self_j self))))
      else if index = 3 then
        Inr (Some (CreateValueFromData (self_k self) ''k'' (GetData (self_k self)) (GetType (self_k self))))
      else Inr None)"

definition get_child_at_index :: "Quaternion \<Rightarrow> int \<Rightarrow> sbvalue option" where
  "get_child_at_index self index =
     (if index < 0 \<or> index \<ge> 4 then None
      else case get_child_at_index_try self index of
             Inr r \<Rightarrow> r
           | Inl e \<Rightarrow> None)"

definition get_child_index :: "string \<Rightarrow> int" where
  "get_child_index name =
     (if name = ''w'' then 0
      else if name = ''i'' then 1
      else if name = ''j'' then 2
      else if name = ''k'' then 3
      else -1)"

section \<open>\<^verbatim>\<open>quaternion.py\<close>: the summary\<close>

text \<open>One round of the loop over \<^verbatim>\<open>[w, i, j, k]\<close>: \<open>result\<close> before, \<open>result\<close> after.\<close>

definition summary_step :: "string \<Rightarrow> pyfloat \<times> string \<Rightarrow> string" where
  "summary_step result t =
     (case t of (v, name) \<Rightarrow>
        if float_eq_zero v then result
        else
          let space = (if result \<noteq> '''' then '' '' else '''');
              result1 = (if float_lt_zero v then result @ space @ ''-''
                         else if result \<noteq> '''' then result @ space @ ''+''
                         else result)
          in result1 @ space @ float_str (float_abs v) @ name)"

fun summary_loop :: "string \<Rightarrow> (pyfloat \<times> string) list \<Rightarrow> string" where
  "summary_loop result [] = result"
| "summary_loop result (t # ts) = summary_loop (summary_step result t) ts"

text \<open>
  The body of the \<^verbatim>\<open>try\<close> of \<^verbatim>\<open>quaternion_summary\<close>: the four conversions run in the
  order \<open>w\<close>, \<open>i\<close>, \<open>j\<close>, \<open>k\<close> before the loop, and the first that raises ends the body.
  The argument \<^verbatim>\<open>internal_dict\<close> is not used.
\<close>

definition quaternion_summary_try :: "sbvalue \<Rightarrow> exn + string" where
  "quaternion_summary_try valobj =
     (let real_valobj = GetNonSyntheticValue valobj;
          q = Quaternion_init real_valobj
      in case py_float (GetValue (self_w q)) of Inl e \<Rightarrow> Inl e | Inr w \<Rightarrow>
        (case py_float (GetValue (self_i q)) of Inl e \<Rightarrow> Inl e | Inr i \<Rightarrow>
        (case py_float (GetValue (self_j q)) of Inl e \<Rightarrow> Inl e | Inr j \<Rightarrow>
        (case py_float (GetValue (self_k q)) of Inl e \<Rightarrow> Inl e | Inr k \<Rightarrow>
           let result = summary_loop '''' [(w, ''''), (i, ''i''), (j, ''j''), (k, ''k'')]
           in if result = '''' then Inr ''0'' else Inr result))))"

definition quaternion_summary :: "sbvalue \<Rightarrow> string" where
  "quaternion_summary valobj =
     (case quaternion_summary_try valobj of
        Inr s \<Rightarrow> s
      | Inl e \<Rightarrow> ''Quaternion(err)'')"

section \<open>Inputs and the specification's wording\<close>

text \<open>
  The value the debugger shows for a quaternion of the debuggee, as \<open>update\<close> expects it: one
  member named \<^verbatim>\<open>0\<close>, a vector whose fields \<^verbatim>\<open>x\<close>, \<^verbatim>\<open>y\<close>, \<^verbatim>\<open>z\<close>, \<^verbatim>\<open>w\<close>
  display the four given values. It is the input of the examples below.
\<close>

definition field :: "string \<Rightarrow> shown \<Rightarrow> string \<times> sbtype \<times> sbdata" where
  "field name v = (name, SBType ''float'', SBData v [])"

definition inspected_quaternion :: "shown \<Rightarrow> shown \<Rightarrow> shown \<Rightarrow> shown \<Rightarrow> sbvalue" where
  "inspected_quaternion a b c d =
     SBValue ''q'' (SBType ''alloy::math::quaternion::Quaternion'')
       (SBData NoValue
          [(''0'', SBType ''alloy::math::vec::vec4::Vec4'',
            SBData NoValue [field ''x'' a, field ''y'' b, field ''z'' c, field ''w'' d])])"

text \<open>
  The whole numbers of the examples as Python floats: up to \<open>2 ^ 53\<close> in absolute value every
  whole number is a float, printed with its own digits, and \<open>whole n\<close> is \<^verbatim>\<open>float(n)\<close>.
\<close>

definition whole :: "int \<Rightarrow> pyfloat" where
  "whole n = Finite (n < 0) (nat \<bar>n\<bar>) 0"

text \<open>
  The rendering of the terms in the words of the specification: the first emitted term shows
  \<^verbatim>\<open>-\<close> when it is negative and no sign otherwise; every later one is a space, its sign, a
  space, then the absolute value and the suffix.
\<close>

definition spec_first_term :: "pyfloat \<times> string \<Rightarrow> string" where
  "spec_first_term t =
     (if float_lt_zero (fst t) then ''-'' else '''') @ float_str (float_abs (fst t)) @ snd t"

definition spec_later_term :: "pyfloat \<times> string \<Rightarrow> string" where
  "spec_later_term t =
     '' '' @ (if float_lt_zero (fst t) then ''-'' else ''+'') @ '' '' @
     float_str (float_abs (fst t)) @ snd t"

text \<open>
  The child of an index in the words of the specification: the label and the component that
  belong to the indices 0, 1, 2, 3.
\<close>

definition spec_label :: "int \<Rightarrow> string" where
  "spec_label index =
     (if index = 0 then ''w'' else if index = 1 then ''i'' else if index = 2 then ''j'' else ''k'')"

definition spec_component :: "Quaternion \<Rightarrow> int \<Rightarrow> sbvalue" where
  "spec_component self index =
     (if index = 0 then self_w self else if index = 1 then self_i self
      else if index = 2 then self_j self else self_k self)"

text \<open>
  The inspected values whose member \<^verbatim>\<open>0\<close> exists and has the fields \<^verbatim>\<open>x\<close>,
  \<^verbatim>\<open>y\<close>, \<^verbatim>\<open>z\<close>, \<^verbatim>\<open>w\<close>, each of a valid type.
\<close>

definition members_bound :: "sbvalue \<Rightarrow> bool" where
  "members_bound valobj =
     (let vec = GetChildMemberWithName valobj ''0''
      in list_all (\<lambda>name. IsValid (GetChildMemberWithName vec name) \<and>
                           GetType (GetChildMemberWithName vec name) \<noteq> TypeInvalid)
           [''x'', ''y'', ''z'', ''w''])"

section \<open>The children\<close>

text \<open>
  C5. \<^verbatim>\<open>num_children\<close> returns 4 in every state of the provider, whatever the inspected
  value holds and whether or not its members were found.
\<close>

theorem num_children_always_four:
  "num_children self = 4 \<and> num_children (Quaternion_init valobj) = 4"
  by (simp add: num_children_def)

text \<open>
  C7. \<^verbatim>\<open>get_child_index\<close> maps \<^verbatim>\<open>w\<close>, \<^verbatim>\<open>i\<close>, \<^verbatim>\<open>j\<close>, \<^verbatim>\<open>k\<close> to 0, 1, 2, 3 and
  every other name to -1; it has no failing branch.
\<close>

theorem get_child_index_table:
  "get_child_index ''w'' = 0 \<and> get_child_index ''i'' = 1 \<and>
   get_child_index ''j'' = 2 \<and> get_child_index ''k'' = 3 \<and>
   (name \<notin> {''w'', ''i'', ''j'', ''k''} \<longrightarrow> get_child_index name = -1)"
  by (simp add: get_child_index_def)

theorem get_child_index_table_witness:
  "''x'' \<notin> {''w'', ''i'', ''j'', ''k''} \<and> get_child_index ''x'' = -1 \<and>
   get_child_index ''w'' = 0 \<and> get_child_index ''k'' = 3"
  using get_child_index_table [of "''x''"] by simp

section \<open>Printing a float\<close>

lemma digit_char_is_digit: "digit_char d \<in> set ''0123456789''"
  by (simp add: digit_char_def)

lemma digits_nonempty: "digits n \<noteq> []"
  by (subst digits.simps) simp

lemma hd_digits_is_digit: "hd (digits n) \<in> set ''0123456789''"
proof (induction n rule: digits.induct)
  case (1 n)
  show ?case
  proof (cases "n < 10")
    case True
    then have "digits n = [digit_char n]" by (subst digits.simps) simp
    then show ?thesis using digit_char_is_digit [of n] by simp
  next
    case False
    then have "digits n = digits (n div 10) @ [digit_char (n mod 10)]"
      by (subst digits.simps) simp
    then have "hd (digits n) = hd (digits (n div 10))"
      using digits_nonempty [of "n div 10"] by simp
    then show ?thesis using 1 False by simp
  qed
qed

lemma finite_str_head:
  "finite_str m e \<noteq> [] \<and> hd (finite_str m e) \<in> set ''0123456789''"
proof (cases "m = 0")
  case True
  then show ?thesis by (simp add: finite_str_def)
next
  case False
  obtain m' e' where st: "strip_zeros m e = (m', e')" by (cases "strip_zeros m e")
  define ds where "ds = digits m'"
  define decpt where "decpt = int (length ds) + e'"
  have ne: "ds \<noteq> []" and hd: "hd ds \<in> set ''0123456789''"
    using digits_nonempty [of m'] hd_digits_is_digit [of m'] by (simp_all add: ds_def)
  have tk: "0 < decpt \<Longrightarrow> take (nat decpt) ds \<noteq> [] \<and> hd (take (nat decpt) ds) = hd ds"
    using ne by (cases ds; cases "nat decpt") simp_all
  have "finite_str m e =
     (if decpt \<le> -4 \<or> decpt > 16 then
        [hd ds] @ (if tl ds = [] then '''' else ''.'' @ tl ds) @ ''e'' @ exponent_str (decpt - 1)
      else if decpt \<le> 0 then ''0.'' @ replicate (nat (- decpt)) CHR ''0'' @ ds
      else if decpt < int (length ds) then take (nat decpt) ds @ ''.'' @ drop (nat decpt) ds
      else ds @ replicate (nat decpt - length ds) CHR ''0'' @ ''.0'')"
    using False st by (simp add: finite_str_def ds_def decpt_def Let_def)
  then show ?thesis using ne hd tk by (auto simp: hd_append)
qed

lemma float_str_abs_head:
  "float_str (float_abs v) \<noteq> [] \<and> hd (float_str (float_abs v)) \<in> set ''0123456789in''"
proof (cases v)
  case (Finite s m e)
  then show ?thesis using finite_str_head [of m e] by auto
qed simp_all

section \<open>The loop of the summary\<close>

lemma summary_step_zero: "float_eq_zero (fst t) \<Longrightarrow> summary_step result t = result"
  by (cases t) (simp add: summary_step_def)

lemma summary_step_first:
  "\<not> float_eq_zero (fst t) \<Longrightarrow> summary_step [] t = spec_first_term t"
  by (cases t) (simp add: summary_step_def spec_first_term_def)

lemma summary_step_later:
  "\<not> float_eq_zero (fst t) \<Longrightarrow> result \<noteq> [] \<Longrightarrow>
   summary_step result t = result @ spec_later_term t"
  by (cases t) (simp add: summary_step_def spec_later_term_def)

lemma spec_first_term_nonempty: "spec_first_term t \<noteq> []"
  using float_str_abs_head [of "fst t"] by (simp add: spec_first_term_def)

lemma summary_loop_later:
  "result \<noteq> [] \<Longrightarrow>
   summary_loop result ts =
   result @ concat (map spec_later_term (filter (\<lambda>t. \<not> float_eq_zero (fst t)) ts))"
proof (induction ts arbitrary: result)
  case Nil
  then show ?case by simp
next
  case (Cons t ts)
  show ?case
  proof (cases "float_eq_zero (fst t)")
    case True
    then show ?thesis using Cons by (simp add: summary_step_zero)
  next
    case False
    then have "summary_step result t = result @ spec_later_term t"
      using Cons.prems by (rule summary_step_later)
    then show ?thesis using Cons.IH [of "result @ spec_later_term t"] Cons.prems False by simp
  qed
qed

lemma summary_loop_first:
  "summary_loop [] ts =
   (case filter (\<lambda>t. \<not> float_eq_zero (fst t)) ts of
      [] \<Rightarrow> []
    | t # rest \<Rightarrow> spec_first_term t @ concat (map spec_later_term rest))"
proof (induction ts)
  case Nil
  then show ?case by simp
next
  case (Cons t ts)
  show ?case
  proof (cases "float_eq_zero (fst t)")
    case True
    then show ?thesis using Cons by (simp add: summary_step_zero)
  next
    case False
    then show ?thesis
      using summary_loop_later [OF spec_first_term_nonempty, of t ts]
      by (simp add: summary_step_first)
  qed
qed

lemma summary_loop_filter:
  "summary_loop result ts = summary_loop result (filter (\<lambda>t. \<not> float_eq_zero (fst t)) ts)"
  by (induction ts arbitrary: result) (simp_all add: summary_step_zero)

lemma quaternion_summary_reads:
  assumes "q = Quaternion_init (GetNonSyntheticValue valobj)"
    and "py_float (GetValue (self_w q)) = Inr w"
    and "py_float (GetValue (self_i q)) = Inr i"
    and "py_float (GetValue (self_j q)) = Inr j"
    and "py_float (GetValue (self_k q)) = Inr k"
  shows "quaternion_summary valobj =
     (let result = summary_loop '''' [(w, ''''), (i, ''i''), (j, ''j''), (k, ''k'')]
      in if result = '''' then ''0'' else result)"
  using assms by (simp add: quaternion_summary_def quaternion_summary_try_def Let_def)

lemmas input_defs = inspected_quaternion_def field_def whole_def GetNonSyntheticValue_def
  Quaternion_init_def update_def

lemmas print_defs = summary_step_def finite_str_def strip_zeros.simps digits.simps digit_char_def

text \<open>What \<open>float_str\<close> prints for some floats, as Python's \<^verbatim>\<open>str\<close> does.\<close>

lemma replicate_numeral: "replicate (numeral n) x = x # replicate (pred_numeral n) x"
  by (simp add: numeral_eq_Suc)

lemma float_str_examples:
  "float_str (Finite False 1 0) = ''1.0''"
  "float_str (Finite True 25 (-1)) = ''-2.5''"
  "float_str (Finite False 1 2) = ''100.0''"
  "float_str (Finite False 1200 (-2)) = ''12.0''"
  "float_str (Finite False 5 (-1)) = ''0.5''"
  "float_str (Finite False 1 (-4)) = ''0.0001''"
  "float_str (Finite False 1 (-5)) = ''1e-05''"
  "float_str (Finite False 15 (-8)) = ''1.5e-07''"
  "float_str (Finite False 1 15) = ''1000000000000000.0''"
  "float_str (Finite False 1 16) = ''1e+16''"
  "float_str (Finite False 17976931348623157 292) = ''1.7976931348623157e+308''"
  "float_str (Finite True 0 0) = ''-0.0''"
  "float_str (Infinity True) = ''-inf''"
  "float_str NaN = ''nan''"
  by (simp_all add: print_defs exponent_str_def replicate_numeral)

lemma failed_read:
  "c = SBInvalid \<or> GetValue c = NoValue \<or> GetValue c = Unparsable \<Longrightarrow>
   isl (py_float (GetValue c))"
  by auto

lemma quaternion_summary_try_raises:
  assumes "q = Quaternion_init (GetNonSyntheticValue valobj)"
    and "isl (py_float (GetValue (self_w q))) \<or> isl (py_float (GetValue (self_i q))) \<or>
         isl (py_float (GetValue (self_j q))) \<or> isl (py_float (GetValue (self_k q)))"
  shows "isl (quaternion_summary_try valobj)"
  using assms by (auto simp: quaternion_summary_try_def Let_def split: sum.splits)

section \<open>The summary\<close>

text \<open>
  C1. When the member \<^verbatim>\<open>0\<close> or one of its four fields is missing, or a field has no
  displayed value or one that \<^verbatim>\<open>float\<close> rejects, \<^verbatim>\<open>quaternion_summary\<close> returns the
  placeholder \<^verbatim>\<open>Quaternion(err)\<close>: the exception ends in the handler, the caller gets a string.
\<close>

theorem quaternion_summary_failure_placeholder:
  assumes "q = Quaternion_init (GetNonSyntheticValue valobj)"
    and "GetChildMemberWithName (GetNonSyntheticValue valobj) ''0'' = SBInvalid \<or>
         (\<exists>c \<in> {self_w q, self_i q, self_j q, self_k q}.
            c = SBInvalid \<or> GetValue c = NoValue \<or> GetValue c = Unparsable)"
  shows "quaternion_summary valobj = ''Quaternion(err)''"
proof -
  have "\<exists>c \<in> {self_w q, self_i q, self_j q, self_k q}.
          c = SBInvalid \<or> GetValue c = NoValue \<or> GetValue c = Unparsable"
  proof (cases "GetChildMemberWithName (GetNonSyntheticValue valobj) ''0'' = SBInvalid")
    case True
    then have "self_w q = SBInvalid"
      by (simp add: assms(1) Quaternion_init_def update_def)
    then show ?thesis by simp
  next
    case False
    then show ?thesis using assms(2) by simp
  qed
  then have "isl (py_float (GetValue (self_w q))) \<or> isl (py_float (GetValue (self_i q))) \<or>
         isl (py_float (GetValue (self_j q))) \<or> isl (py_float (GetValue (self_k q)))"
    using failed_read by auto
  then have "isl (quaternion_summary_try valobj)"
    by (rule quaternion_summary_try_raises [OF assms(1)])
  then show ?thesis
    by (cases "quaternion_summary_try valobj") (simp_all add: quaternion_summary_def)
qed

theorem quaternion_summary_failure_placeholder_witness:
  "quaternion_summary (inspected_quaternion (Number (whole 1)) Unparsable NoValue (Number (whole 0)))
     = ''Quaternion(err)'' \<and>
   quaternion_summary (SBValue ''q'' (SBType ''Quaternion'') (SBData NoValue [])) = ''Quaternion(err)'' \<and>
   quaternion_summary SBInvalid = ''Quaternion(err)''"
proof -
  have a: "GetValue (self_i (Quaternion_init (GetNonSyntheticValue
            (inspected_quaternion (Number (whole 1)) Unparsable NoValue (Number (whole 0)))))) = Unparsable"
    by (simp add: input_defs)
  have b: "GetChildMemberWithName (GetNonSyntheticValue
            (SBValue ''q'' (SBType ''Quaternion'') (SBData NoValue []))) ''0'' = SBInvalid"
    by (simp add: input_defs)
  have c: "GetChildMemberWithName (GetNonSyntheticValue SBInvalid) ''0'' = SBInvalid"
    by (simp add: input_defs)
  show ?thesis
    using quaternion_summary_failure_placeholder [OF refl, of "inspected_quaternion (Number (whole 1)) Unparsable NoValue (Number (whole 0))"]
      quaternion_summary_failure_placeholder [OF refl, of "SBValue ''q'' (SBType ''Quaternion'') (SBData NoValue [])"]
      quaternion_summary_failure_placeholder [OF refl, of SBInvalid]
      a b c by simp
qed

text \<open>
  C2. When the four components are read, the summary is that of the terms that are not zero,
  the zero ones left out; when all four are zero it is the string \<^verbatim>\<open>0\<close>.
\<close>

theorem quaternion_summary_omits_zero_terms:
  assumes "q = Quaternion_init (GetNonSyntheticValue valobj)"
    and "py_float (GetValue (self_w q)) = Inr w"
    and "py_float (GetValue (self_i q)) = Inr i"
    and "py_float (GetValue (self_j q)) = Inr j"
    and "py_float (GetValue (self_k q)) = Inr k"
  shows "quaternion_summary valobj =
           (let result = summary_loop ''''
                  (filter (\<lambda>t. \<not> float_eq_zero (fst t)) [(w, ''''), (i, ''i''), (j, ''j''), (k, ''k'')])
            in if result = '''' then ''0'' else result) \<and>
         (float_eq_zero w \<and> float_eq_zero i \<and> float_eq_zero j \<and> float_eq_zero k \<longrightarrow>
            quaternion_summary valobj = ''0'')"
proof -
  have eq: "quaternion_summary valobj =
     (let result = summary_loop '''' [(w, ''''), (i, ''i''), (j, ''j''), (k, ''k'')]
      in if result = '''' then ''0'' else result)"
    using assms by (rule quaternion_summary_reads)
  have "summary_loop '''' [(w, ''''), (i, ''i''), (j, ''j''), (k, ''k'')] =
        summary_loop '''' (filter (\<lambda>t. \<not> float_eq_zero (fst t)) [(w, ''''), (i, ''i''), (j, ''j''), (k, ''k'')])"
    by (rule summary_loop_filter)
  then have first: "quaternion_summary valobj =
           (let result = summary_loop ''''
                  (filter (\<lambda>t. \<not> float_eq_zero (fst t)) [(w, ''''), (i, ''i''), (j, ''j''), (k, ''k'')])
            in if result = '''' then ''0'' else result)"
    using eq by simp
  have "float_eq_zero w \<and> float_eq_zero i \<and> float_eq_zero j \<and> float_eq_zero k \<longrightarrow>
            quaternion_summary valobj = ''0''"
    using first by simp
  then show ?thesis using first by blast
qed

theorem quaternion_summary_omits_zero_terms_witness:
  "quaternion_summary (inspected_quaternion (Number (whole 0)) (Number (whole 2)) (Number (Finite True 0 0)) (Number (whole (-3))))
     = summary_loop '''' [(whole 2, ''i''), (whole (-3), ''k'')] \<and>
   quaternion_summary (inspected_quaternion (Number (whole 0)) (Number (whole 2)) (Number (Finite True 0 0)) (Number (whole (-3))))
     = ''2.0i - 3.0k'' \<and>
   quaternion_summary (inspected_quaternion (Number (whole 0)) (Number (whole 0)) (Number (Finite True 0 0)) (Number (whole 0)))
     = ''0''"
proof -
  have r: "py_float (GetValue (self_w (Quaternion_init (GetNonSyntheticValue (inspected_quaternion (Number a) (Number b) (Number c) (Number d)))))) = Inr a"
     "py_float (GetValue (self_i (Quaternion_init (GetNonSyntheticValue (inspected_quaternion (Number a) (Number b) (Number c) (Number d)))))) = Inr b"
     "py_float (GetValue (self_j (Quaternion_init (GetNonSyntheticValue (inspected_quaternion (Number a) (Number b) (Number c) (Number d)))))) = Inr c"
     "py_float (GetValue (self_k (Quaternion_init (GetNonSyntheticValue (inspected_quaternion (Number a) (Number b) (Number c) (Number d)))))) = Inr d"
    for a b c d
    by (simp_all add: input_defs)
  show ?thesis
    using quaternion_summary_omits_zero_terms [OF refl r, of "whole 0" "whole 2" "Finite True 0 0" "whole (-3)"]
      quaternion_summary_omits_zero_terms [OF refl r, of "whole 0" "whole 0" "Finite True 0 0" "whole 0"]
    by (simp add: whole_def print_defs)
qed

lemma inspected_quaternion_reads:
  "py_float (GetValue (self_w (Quaternion_init (GetNonSyntheticValue
      (inspected_quaternion (Number a) (Number b) (Number c) (Number d)))))) = Inr a"
  "py_float (GetValue (self_i (Quaternion_init (GetNonSyntheticValue
      (inspected_quaternion (Number a) (Number b) (Number c) (Number d)))))) = Inr b"
  "py_float (GetValue (self_j (Quaternion_init (GetNonSyntheticValue
      (inspected_quaternion (Number a) (Number b) (Number c) (Number d)))))) = Inr c"
  "py_float (GetValue (self_k (Quaternion_init (GetNonSyntheticValue
      (inspected_quaternion (Number a) (Number b) (Number c) (Number d)))))) = Inr d"
  by (simp_all add: input_defs)

lemma hd_spec_first_term:
  "(hd (spec_first_term t) = CHR ''-'') = float_lt_zero (fst t) \<and>
   hd (spec_first_term t) \<noteq> CHR ''+''"
proof -
  have h: "float_str (float_abs (fst t)) \<noteq> []"
       "hd (float_str (float_abs (fst t))) \<in> set ''0123456789in''"
    using float_str_abs_head [of "fst t"] by simp_all
  show ?thesis
  proof (cases "float_lt_zero (fst t)")
    case True
    then show ?thesis by (simp add: spec_first_term_def)
  next
    case False
    then have "hd (spec_first_term t) = hd (float_str (float_abs (fst t)))"
      using h(1) by (simp add: spec_first_term_def)
    then show ?thesis using h(2) False by auto
  qed
qed

text \<open>
  C4. With at least one component that is not zero, the summary is the first such term, with
  \<^verbatim>\<open>-\<close> in front when it is negative and nothing otherwise, followed by every later one as
  a space, \<^verbatim>\<open>+\<close> or \<^verbatim>\<open>-\<close>, a space, the absolute value and the suffix; the suffixes
  are none for \<open>w\<close> and \<^verbatim>\<open>i\<close>, \<^verbatim>\<open>j\<close>, \<^verbatim>\<open>k\<close>. The output starts with \<^verbatim>\<open>-\<close> exactly
  when the first term is negative, and never with \<^verbatim>\<open>+\<close>.
\<close>

theorem quaternion_summary_term_format:
  assumes "q = Quaternion_init (GetNonSyntheticValue valobj)"
    and "py_float (GetValue (self_w q)) = Inr w"
    and "py_float (GetValue (self_i q)) = Inr i"
    and "py_float (GetValue (self_j q)) = Inr j"
    and "py_float (GetValue (self_k q)) = Inr k"
    and "filter (\<lambda>t. \<not> float_eq_zero (fst t)) [(w, ''''), (i, ''i''), (j, ''j''), (k, ''k'')]
           = t # rest"
  shows "quaternion_summary valobj = spec_first_term t @ concat (map spec_later_term rest) \<and>
         (hd (quaternion_summary valobj) = CHR ''-'') = float_lt_zero (fst t) \<and>
         hd (quaternion_summary valobj) \<noteq> CHR ''+''"
proof -
  have "quaternion_summary valobj =
     (let result = summary_loop '''' [(w, ''''), (i, ''i''), (j, ''j''), (k, ''k'')]
      in if result = '''' then ''0'' else result)"
    using assms(1-5) by (rule quaternion_summary_reads)
  moreover have "summary_loop '''' [(w, ''''), (i, ''i''), (j, ''j''), (k, ''k'')] =
      spec_first_term t @ concat (map spec_later_term rest)"
    using summary_loop_first [of "[(w, ''''), (i, ''i''), (j, ''j''), (k, ''k'')]"] assms(6)
    by simp
  ultimately have eq: "quaternion_summary valobj =
      spec_first_term t @ concat (map spec_later_term rest)"
    using spec_first_term_nonempty [of t] by simp
  then have "hd (quaternion_summary valobj) = hd (spec_first_term t)"
    using spec_first_term_nonempty [of t] by simp
  then show ?thesis using eq hd_spec_first_term [of t] by simp
qed

theorem quaternion_summary_term_format_witness:
  "quaternion_summary (inspected_quaternion (Number (whole 0)) (Number (whole (-2)))
      (Number NaN) (Number (Finite False 25 (-1)))) =
     spec_first_term (whole (-2), ''i'') @ spec_later_term (NaN, ''j'') @
     spec_later_term (Finite False 25 (-1), ''k'') \<and>
   quaternion_summary (inspected_quaternion (Number (whole 0)) (Number (whole (-2)))
      (Number NaN) (Number (Finite False 25 (-1)))) = ''-2.0i + nanj + 2.5k'' \<and>
   hd (quaternion_summary (inspected_quaternion (Number (whole 0)) (Number (whole (-2)))
      (Number NaN) (Number (Finite False 25 (-1))))) = CHR ''-''"
proof -
  have f: "filter (\<lambda>t. \<not> float_eq_zero (fst t))
        [(whole 0, ''''), (whole (-2), ''i''), (NaN, ''j''), (Finite False 25 (-1), ''k'')] =
        (whole (-2), ''i'') # [(NaN, ''j''), (Finite False 25 (-1), ''k'')]"
    by (simp add: whole_def)
  show ?thesis
    using quaternion_summary_term_format [OF refl inspected_quaternion_reads f]
    by (simp add: whole_def spec_first_term_def spec_later_term_def print_defs)
qed

text \<open>
  C3. The examples of the specification, as the program prints them: a float is printed with
  its decimal point, and a later term has a space after its sign.
\<close>

theorem quaternion_summary_examples:
  "quaternion_summary (inspected_quaternion (Number (whole 1)) (Number (whole 0))
      (Number (whole 0)) (Number (whole 0))) = ''1.0'' \<and>
   quaternion_summary (inspected_quaternion (Number (whole 0)) (Number (whole (-2)))
      (Number (whole 0)) (Number (whole 0))) = ''-2.0i'' \<and>
   quaternion_summary (inspected_quaternion (Number (whole 1)) (Number (whole 2))
      (Number (whole 0)) (Number (whole (-3)))) = ''1.0 + 2.0i - 3.0k''"
  by (simp add: quaternion_summary_def quaternion_summary_try_def input_defs print_defs)

theorem quaternion_summary_examples_counterexample:
  "quaternion_summary (inspected_quaternion (Number (whole 1)) (Number (whole 2))
      (Number (whole 0)) (Number (whole (-3)))) \<noteq> ''1 +2i -3k''"
  by (simp add: quaternion_summary_def quaternion_summary_try_def input_defs print_defs)

section \<open>The children by index\<close>

lemma GetValue_displayed: "GetValue (SBValue n t d) = displayed d"
  by (cases d) simp

lemma CreateValueFromData_own:
  "IsValid c \<Longrightarrow> GetType c \<noteq> TypeInvalid \<Longrightarrow>
   CreateValueFromData c name (GetData c) (GetType c) = SBValue name (GetType c) (GetData c)"
  by (cases c; cases "GetType c") auto

lemma in_range_cases: "0 \<le> index \<Longrightarrow> index < 4 \<Longrightarrow> index = 0 \<or> index = 1 \<or> index = 2 \<or> index = (3::int)"
  by arith

lemma get_child_at_index_in_range:
  assumes "0 \<le> index" and "index < 4"
  shows "get_child_at_index self index =
     Some (CreateValueFromData (spec_component self index) (spec_label index)
             (GetData (spec_component self index)) (GetType (spec_component self index)))"
  using in_range_cases [OF assms]
  by (auto simp: get_child_at_index_def get_child_at_index_try_def spec_component_def spec_label_def)

text \<open>
  C6. Outside \<open>0 \<le> index < 4\<close>, \<^verbatim>\<open>get_child_at_index\<close> returns \<^verbatim>\<open>None\<close>. Inside, when the
  component of that index is a valid value of a valid type, it returns a value named
  \<^verbatim>\<open>w\<close>, \<^verbatim>\<open>i\<close>, \<^verbatim>\<open>j\<close>, \<^verbatim>\<open>k\<close> with the component's data and type; when the
  component is invalid, it returns an invalid value, which has no name.
\<close>

theorem get_child_at_index_cases:
  "(index < 0 \<or> 4 \<le> index \<longrightarrow> get_child_at_index self index = None) \<and>
   (0 \<le> index \<and> index < 4 \<and> IsValid (spec_component self index) \<and>
      GetType (spec_component self index) \<noteq> TypeInvalid \<longrightarrow>
      get_child_at_index self index =
        Some (SBValue (spec_label index) (GetType (spec_component self index))
                (GetData (spec_component self index)))) \<and>
   (0 \<le> index \<and> index < 4 \<and> \<not> IsValid (spec_component self index) \<longrightarrow>
      get_child_at_index self index = Some SBInvalid)"
proof (intro conjI impI)
  assume "index < 0 \<or> 4 \<le> index"
  then show "get_child_at_index self index = None"
    by (auto simp: get_child_at_index_def)
next
  assume a: "0 \<le> index \<and> index < 4 \<and> IsValid (spec_component self index) \<and>
      GetType (spec_component self index) \<noteq> TypeInvalid"
  then show "get_child_at_index self index =
        Some (SBValue (spec_label index) (GetType (spec_component self index))
                (GetData (spec_component self index)))"
    using get_child_at_index_in_range [of index self] CreateValueFromData_own by simp
next
  assume a: "0 \<le> index \<and> index < 4 \<and> \<not> IsValid (spec_component self index)"
  then have "spec_component self index = SBInvalid"
    by (cases "spec_component self index") simp_all
  then show "get_child_at_index self index = Some SBInvalid"
    using a get_child_at_index_in_range [of index self] by simp
qed

theorem get_child_at_index_cases_witness:
  "get_child_at_index (Quaternion_init (inspected_quaternion (Number (whole 1)) (Number (whole 2))
      (Number (whole 0)) (Number (whole (-3))))) 3 =
     Some (SBValue ''k'' (SBType ''float'') (SBData (Number (whole (-3))) [])) \<and>
   get_child_at_index (Quaternion_init (inspected_quaternion (Number (whole 1)) (Number (whole 2))
      (Number (whole 0)) (Number (whole (-3))))) 4 = None \<and>
   get_child_at_index (Quaternion_init (inspected_quaternion (Number (whole 1)) (Number (whole 2))
      (Number (whole 0)) (Number (whole (-3))))) (-1) = None \<and>
   get_child_at_index (Quaternion_init SBInvalid) 1 = Some SBInvalid"
  using get_child_at_index_cases [of 3 "Quaternion_init (inspected_quaternion (Number (whole 1))
      (Number (whole 2)) (Number (whole 0)) (Number (whole (-3))))"]
    get_child_at_index_cases [of 4 "Quaternion_init (inspected_quaternion (Number (whole 1))
      (Number (whole 2)) (Number (whole 0)) (Number (whole (-3))))"]
    get_child_at_index_cases [of "-1" "Quaternion_init (inspected_quaternion (Number (whole 1))
      (Number (whole 2)) (Number (whole 0)) (Number (whole (-3))))"]
    get_child_at_index_cases [of 1 "Quaternion_init SBInvalid"]
  by (simp add: input_defs spec_component_def spec_label_def)

theorem get_child_at_index_cases_counterexample:
  "get_child_at_index (Quaternion_init SBInvalid) 0 = Some SBInvalid \<and>
   GetName SBInvalid \<noteq> Some ''w''"
  by (simp add: get_child_at_index_def get_child_at_index_try_def Quaternion_init_def update_def)

text \<open>
  C8. For a value whose member \<^verbatim>\<open>0\<close> has the four fields, each of a valid type, and an
  index from 0 to 3, the name of the child at that index is mapped back to the index.
\<close>

theorem child_name_index_round_trip:
  assumes "members_bound valobj" and "0 \<le> index" and "index < 4"
  shows "\<exists>c name. get_child_at_index (Quaternion_init valobj) index = Some c \<and>
           GetName c = Some name \<and> get_child_index name = index"
proof -
  let ?q = "Quaternion_init valobj"
  have b: "IsValid (spec_component ?q index) \<and> GetType (spec_component ?q index) \<noteq> TypeInvalid"
    using assms(1)
    by (simp add: members_bound_def Let_def spec_component_def Quaternion_init_def update_def)
  then have "get_child_at_index ?q index =
      Some (SBValue (spec_label index) (GetType (spec_component ?q index))
              (GetData (spec_component ?q index)))"
    using get_child_at_index_in_range [OF assms(2,3), of ?q] CreateValueFromData_own by simp
  moreover have "get_child_index (spec_label index) = index"
    using in_range_cases [OF assms(2,3)] by (auto simp: spec_label_def get_child_index_def)
  ultimately show ?thesis by simp
qed

theorem child_name_index_round_trip_witness:
  "members_bound (inspected_quaternion (Number (whole 1)) (Number (whole 2))
      (Number (whole 0)) (Number (whole (-3)))) \<and>
   get_child_at_index (Quaternion_init (inspected_quaternion (Number (whole 1)) (Number (whole 2))
      (Number (whole 0)) (Number (whole (-3))))) 2 =
     Some (SBValue ''j'' (SBType ''float'') (SBData (Number (whole 0)) [])) \<and>
   get_child_index ''j'' = 2"
proof -
  have m: "members_bound (inspected_quaternion (Number (whole 1)) (Number (whole 2))
      (Number (whole 0)) (Number (whole (-3))))"
    by (simp add: members_bound_def inspected_quaternion_def field_def)
  have c: "get_child_at_index (Quaternion_init (inspected_quaternion (Number (whole 1))
      (Number (whole 2)) (Number (whole 0)) (Number (whole (-3))))) 2 =
     Some (SBValue ''j'' (SBType ''float'') (SBData (Number (whole 0)) []))"
    by (simp add: get_child_at_index_def get_child_at_index_try_def input_defs)
  show ?thesis
    using child_name_index_round_trip [OF m, of 2] m c by simp
qed

section \<open>The binding of the fields\<close>

text \<open>
  C10. When the member \<^verbatim>\<open>0\<close> of the inspected value has fields \<^verbatim>\<open>x\<close>, \<^verbatim>\<open>y\<close>,
  \<^verbatim>\<open>z\<close>, \<^verbatim>\<open>w\<close>, \<open>update\<close> binds \<open>w\<close> to the field \<^verbatim>\<open>x\<close>, \<open>i\<close> to \<^verbatim>\<open>y\<close>,
  \<open>j\<close> to \<^verbatim>\<open>z\<close> and \<open>k\<close> to \<^verbatim>\<open>w\<close>. So the child labeled \<^verbatim>\<open>k\<close> holds the data
  of the field \<^verbatim>\<open>w\<close>, the child labeled \<^verbatim>\<open>w\<close> that of the field \<^verbatim>\<open>x\<close>, and the
  summary takes its terms from \<^verbatim>\<open>x\<close>, \<^verbatim>\<open>y\<close>, \<^verbatim>\<open>z\<close>, \<^verbatim>\<open>w\<close> in this order.
\<close>

theorem update_binds_fields:
  assumes "valobj = SBValue n t (SBData v ms)"
    and "map_of ms ''0'' = Some (t0, SBData v0 fs)"
    and "map_of fs ''x'' = Some (tx, dx)"
    and "map_of fs ''y'' = Some (ty, dy)"
    and "map_of fs ''z'' = Some (tz, dz)"
    and "map_of fs ''w'' = Some (tw, dw)"
    and "q = Quaternion_init valobj"
  shows "self_w q = SBValue ''x'' tx dx \<and> self_i q = SBValue ''y'' ty dy \<and>
         self_j q = SBValue ''z'' tz dz \<and> self_k q = SBValue ''w'' tw dw \<and>
         (tw \<noteq> TypeInvalid \<longrightarrow> get_child_at_index q 3 = Some (SBValue ''k'' tw dw)) \<and>
         (tx \<noteq> TypeInvalid \<longrightarrow> get_child_at_index q 0 = Some (SBValue ''w'' tx dx)) \<and>
         (displayed dx = Number a \<and> displayed dy = Number b \<and>
          displayed dz = Number c \<and> displayed dw = Number d \<longrightarrow>
            quaternion_summary valobj =
              (let result = summary_loop '''' [(a, ''''), (b, ''i''), (c, ''j''), (d, ''k'')]
               in if result = '''' then ''0'' else result))"
proof -
  have w: "self_w q = SBValue ''x'' tx dx" and i: "self_i q = SBValue ''y'' ty dy"
    and j: "self_j q = SBValue ''z'' tz dz" and k: "self_k q = SBValue ''w'' tw dw"
    using assms by (simp_all add: Quaternion_init_def update_def)
  have c3: "tw \<noteq> TypeInvalid \<longrightarrow> get_child_at_index q 3 = Some (SBValue ''k'' tw dw)"
    using k by (cases tw) (simp_all add: get_child_at_index_def get_child_at_index_try_def)
  have c0: "tx \<noteq> TypeInvalid \<longrightarrow> get_child_at_index q 0 = Some (SBValue ''w'' tx dx)"
    using w by (cases tx) (simp_all add: get_child_at_index_def get_child_at_index_try_def)
  have s: "displayed dx = Number a \<and> displayed dy = Number b \<and>
          displayed dz = Number c \<and> displayed dw = Number d \<longrightarrow>
            quaternion_summary valobj =
              (let result = summary_loop '''' [(a, ''''), (b, ''i''), (c, ''j''), (d, ''k'')]
               in if result = '''' then ''0'' else result)"
  proof
    assume n: "displayed dx = Number a \<and> displayed dy = Number b \<and>
          displayed dz = Number c \<and> displayed dw = Number d"
    have q: "q = Quaternion_init (GetNonSyntheticValue valobj)"
      using assms(7) by (simp add: GetNonSyntheticValue_def)
    show "quaternion_summary valobj =
              (let result = summary_loop '''' [(a, ''''), (b, ''i''), (c, ''j''), (d, ''k'')]
               in if result = '''' then ''0'' else result)"
      by (rule quaternion_summary_reads [OF q]) (simp_all add: w i j k n GetValue_displayed)
  qed
  show ?thesis using w i j k c3 c0 s by blast
qed

theorem update_binds_fields_witness:
  "self_w (Quaternion_init (inspected_quaternion (Number (whole 0)) (Number (whole 0))
      (Number (whole 0)) (Number (whole 5)))) =
     SBValue ''x'' (SBType ''float'') (SBData (Number (whole 0)) []) \<and>
   self_k (Quaternion_init (inspected_quaternion (Number (whole 0)) (Number (whole 0))
      (Number (whole 0)) (Number (whole 5)))) =
     SBValue ''w'' (SBType ''float'') (SBData (Number (whole 5)) []) \<and>
   get_child_at_index (Quaternion_init (inspected_quaternion (Number (whole 0)) (Number (whole 0))
      (Number (whole 0)) (Number (whole 5)))) 3 =
     Some (SBValue ''k'' (SBType ''float'') (SBData (Number (whole 5)) [])) \<and>
   quaternion_summary (inspected_quaternion (Number (whole 0)) (Number (whole 0))
      (Number (whole 0)) (Number (whole 5))) = ''5.0k''"
proof -
  let ?fs = "[field ''x'' (Number (whole 0)), field ''y'' (Number (whole 0)),
              field ''z'' (Number (whole 0)), field ''w'' (Number (whole 5))]"
  have m: "map_of [(''0'', SBType ''alloy::math::vec::vec4::Vec4'', SBData NoValue ?fs)] ''0'' =
             Some (SBType ''alloy::math::vec::vec4::Vec4'', SBData NoValue ?fs)"
    by simp
  have x: "map_of ?fs ''x'' = Some (SBType ''float'', SBData (Number (whole 0)) [])"
    and y: "map_of ?fs ''y'' = Some (SBType ''float'', SBData (Number (whole 0)) [])"
    and z: "map_of ?fs ''z'' = Some (SBType ''float'', SBData (Number (whole 0)) [])"
    and w: "map_of ?fs ''w'' = Some (SBType ''float'', SBData (Number (whole 5)) [])"
    by (simp_all add: field_def)
  have p: "(let result = summary_loop '''' [(whole 0, ''''), (whole 0, ''i''), (whole 0, ''j''),
               (whole 5, ''k'')] in if result = '''' then ''0'' else result) = ''5.0k''"
    by (simp add: whole_def print_defs)
  show ?thesis
    using update_binds_fields [OF inspected_quaternion_def m x y z w refl,
        of "whole 0" "whole 0" "whole 0" "whole 5"] p
    by simp
qed

section \<open>Totality\<close>

text \<open>
  C9. Every operation returns a result on every input. \<^verbatim>\<open>__init__\<close> returns a state
  (with invalid components when the member \<^verbatim>\<open>0\<close> is missing), \<^verbatim>\<open>num_children\<close>
  returns 4, the body of \<^verbatim>\<open>get_child_at_index\<close> never raises and the method returns
  \<^verbatim>\<open>None\<close> exactly outside \<open>0 \<le> index < 4\<close>, \<^verbatim>\<open>get_child_index\<close> returns one of
  -1, 0, 1, 2, 3, and \<^verbatim>\<open>quaternion_summary\<close> returns a string that is not empty, the
  placeholder when its body raises.
\<close>

theorem public_operations_total:
  "self_valobj (Quaternion_init valobj) = valobj \<and>
   (GetChildMemberWithName valobj ''0'' = SBInvalid \<longrightarrow>
      Quaternion_init valobj =
        \<lparr>self_valobj = valobj, self_w = SBInvalid, self_i = SBInvalid,
         self_j = SBInvalid, self_k = SBInvalid\<rparr>) \<and>
   num_children self = 4 \<and>
   (\<exists>r. get_child_at_index_try self index = Inr r) \<and>
   ((get_child_at_index self index = None) = (index < 0 \<or> 4 \<le> index)) \<and>
   get_child_index name \<in> {-1, 0, 1, 2, 3} \<and>
   (isl (quaternion_summary_try valobj) \<longrightarrow> quaternion_summary valobj = ''Quaternion(err)'') \<and>
   quaternion_summary valobj \<noteq> ''''"
proof -
  have a: "self_valobj (Quaternion_init valobj) = valobj"
    by (simp add: Quaternion_init_def update_def Let_def)
  have b: "GetChildMemberWithName valobj ''0'' = SBInvalid \<longrightarrow>
      Quaternion_init valobj =
        \<lparr>self_valobj = valobj, self_w = SBInvalid, self_i = SBInvalid,
         self_j = SBInvalid, self_k = SBInvalid\<rparr>"
    by (simp add: Quaternion_init_def update_def)
  have c: "num_children self = 4"
    by (simp add: num_children_def)
  have d: "\<exists>r. get_child_at_index_try self index = Inr r"
    by (simp add: get_child_at_index_try_def)
  have e: "(get_child_at_index self index = None) = (index < 0 \<or> 4 \<le> index)"
  proof (cases "index < 0 \<or> 4 \<le> index")
    case True
    then show ?thesis by (auto simp: get_child_at_index_def)
  next
    case False
    then have "0 \<le> index" and "index < 4" by simp_all
    then show ?thesis using False get_child_at_index_in_range [of index self] by simp
  qed
  have f: "get_child_index name \<in> {-1, 0, 1, 2, 3}"
    by (simp add: get_child_index_def)
  have g: "isl (quaternion_summary_try valobj) \<longrightarrow> quaternion_summary valobj = ''Quaternion(err)''"
    by (cases "quaternion_summary_try valobj") (simp_all add: quaternion_summary_def)
  have h: "quaternion_summary valobj \<noteq> ''''"
    by (auto simp: quaternion_summary_def quaternion_summary_try_def Let_def split: sum.splits)
  show ?thesis using a b c d e f g h by blast
qed

theorem public_operations_total_witness:
  "Quaternion_init SBInvalid =
      \<lparr>self_valobj = SBInvalid, self_w = SBInvalid, self_i = SBInvalid,
       self_j = SBInvalid, self_k = SBInvalid\<rparr> \<and>
   num_children (Quaternion_init SBInvalid) = 4 \<and>
   get_child_at_index (Quaternion_init SBInvalid) 7 = None \<and>
   get_child_index ''q'' = -1 \<and>
   isl (quaternion_summary_try SBInvalid) \<and>
   quaternion_summary SBInvalid = ''Quaternion(err)''"
proof -
  have m: "GetChildMemberWithName SBInvalid ''0'' = SBInvalid" by simp
  have r: "isl (quaternion_summary_try SBInvalid)"
    by (simp add: quaternion_summary_try_def input_defs)
  show ?thesis
    using public_operations_total [of SBInvalid "Quaternion_init SBInvalid" 7 "''q''"] m r
    by (simp add: get_child_index_def num_children_def get_child_at_index_def)
qed

end
